theory Spec2Isabelle
  imports Complex_Main "HOL-Library.Multiset"
begin

section \<open>Python values and the exceptions of the views module\<close>

text \<open>
  The two views of \<^verbatim>\<open>geoapp/views.py\<close> work on decoded JSON: the values that
  \<^verbatim>\<open>Response.json()\<close> returns are \<^verbatim>\<open>None\<close>, booleans, numbers, strings, lists and
  dictionaries with string keys. A dictionary is an association list read with
  \<open>map_of\<close>; numbers are carried through unchanged and only their being zero is
  observed (truthiness).
\<close>

datatype json =
    JNull
  | JBool bool
  | JNum rat
  | JStr string
  | JArr "json list"
  | JObj "(string \<times> json) list"

text \<open>
  The exceptions that can arise in the two views. \<open>RequestError\<close> stands for the
  transport failures of \<^verbatim>\<open>requests.get\<close> (connection error, timeout), \<open>HTTPError\<close> is
  what \<^verbatim>\<open>raise_for_status\<close> raises, \<open>JSONDecodeError\<close> what \<^verbatim>\<open>Response.json()\<close> raises on
  a body that is not JSON; these three are subclasses of
  \<^verbatim>\<open>requests.RequestException\<close>. \<open>PyMongoError\<close> stands for any failure of the store.
\<close>

datatype pyerr =
    RequestError
  | HTTPError
  | JSONDecodeError
  | AttributeError
  | IndexError
  | KeyError
  | TypeError
  | ValueError
  | PyMongoError

fun is_RequestException :: "pyerr \<Rightarrow> bool" where
  "is_RequestException RequestError = True"
| "is_RequestException HTTPError = True"
| "is_RequestException JSONDecodeError = True"
| "is_RequestException _ = False"

text \<open>\<^verbatim>\<open>except Exception\<close> catches every exception of the model.\<close>

definition is_Exception :: "pyerr \<Rightarrow> bool" where
  "is_Exception e = True"

text \<open>Sequencing of statements that may raise: the first exception wins.\<close>

definition and_then :: "pyerr + 'a \<Rightarrow> ('a \<Rightarrow> pyerr + 'b) \<Rightarrow> pyerr + 'b" where
  "and_then r f = (case r of Inl e \<Rightarrow> Inl e | Inr v \<Rightarrow> f v)"

text \<open>
  \<^verbatim>\<open>try: body  except handled: pass\<close>, for a body whose effect is to replace the
  value \<open>d\<close> that was assigned before the \<^verbatim>\<open>try\<close>.
\<close>

definition try_except :: "(pyerr \<Rightarrow> bool) \<Rightarrow> pyerr + 'a \<Rightarrow> 'a \<Rightarrow> pyerr + 'a" where
  "try_except handled body d =
     (case body of
        Inl e \<Rightarrow> if handled e then Inr d else Inl e
      | Inr v \<Rightarrow> Inr v)"

text \<open>Truthiness of a decoded JSON value (\<^verbatim>\<open>if x\<close>, \<^verbatim>\<open>x or y\<close>).\<close>

fun truthy :: "json \<Rightarrow> bool" where
  "truthy JNull = False"
| "truthy (JBool b) = b"
| "truthy (JNum n) = (n \<noteq> 0)"
| "truthy (JStr s) = (s \<noteq> [])"
| "truthy (JArr xs) = (xs \<noteq> [])"
| "truthy (JObj kvs) = (kvs \<noteq> [])"

text \<open>
  \<^verbatim>\<open>x.get(k, d)\<close>: only a dictionary has this attribute; on every other value the
  attribute lookup raises \<^verbatim>\<open>AttributeError\<close>.
\<close>

fun py_get :: "json \<Rightarrow> string \<Rightarrow> json \<Rightarrow> pyerr + json" where
  "py_get (JObj kvs) k d = Inr (case map_of kvs k of None \<Rightarrow> d | Some v \<Rightarrow> v)"
| "py_get _ k d = Inl AttributeError"

text \<open>
  \<^verbatim>\<open>x[0]\<close>: the first element of a list, the first character of a string,
  \<^verbatim>\<open>IndexError\<close> when either is empty, \<^verbatim>\<open>KeyError\<close> on a dictionary (its keys are
  strings, never \<^verbatim>\<open>0\<close>) and \<^verbatim>\<open>TypeError\<close> on \<^verbatim>\<open>None\<close>, booleans and numbers.
\<close>

fun index0 :: "json \<Rightarrow> pyerr + json" where
  "index0 (JArr xs) = (case xs of [] \<Rightarrow> Inl IndexError | x # _ \<Rightarrow> Inr x)"
| "index0 (JStr s) = (case s of [] \<Rightarrow> Inl IndexError | ch # _ \<Rightarrow> Inr (JStr [ch]))"
| "index0 (JObj kvs) = Inl KeyError"
| "index0 _ = Inl TypeError"

text \<open>
  \<^verbatim>\<open>len(x)\<close> and iteration over \<open>x\<close> as a sequence, as \<^verbatim>\<open>random.sample\<close> needs
  them: a list gives its elements, a string its characters; \<^verbatim>\<open>random.sample\<close>
  rejects a dictionary and \<^verbatim>\<open>len\<close> rejects numbers and booleans (\<^verbatim>\<open>TypeError\<close>).
\<close>

fun as_sequence :: "json \<Rightarrow> pyerr + json list" where
  "as_sequence (JArr xs) = Inr xs"
| "as_sequence (JStr s) = Inr (map (\<lambda>ch. JStr [ch]) s)"
| "as_sequence _ = Inl TypeError"

text \<open>\<^verbatim>\<open>str.lower()\<close> on ASCII text: the letters A to Z are mapped, the rest is kept.\<close>

definition lower_char :: "char \<Rightarrow> char" where
  "lower_char c =
     (if 65 \<le> (of_char c :: nat) \<and> (of_char c :: nat) \<le> 90
      then char_of ((of_char c :: nat) + 32) else c)"

definition lower :: "string \<Rightarrow> string" where
  "lower s = map lower_char s"

section \<open>The outside world\<close>

text \<open>
  The outcome of one \<^verbatim>\<open>requests.get\<close>: either the call raises a
  \<^verbatim>\<open>RequestException\<close> (\<open>Failed\<close>: connection error, timeout), or it returns a response
  with a status code and a body; the body is \<open>None\<close> when it is not JSON.
\<close>

datatype http_result =
    Failed
  | Response nat "json option"

text \<open>
  \<^verbatim>\<open>Response.raise_for_status()\<close> of the \<^verbatim>\<open>requests\<close> library raises \<^verbatim>\<open>HTTPError\<close>
  exactly for the client and server error codes, \<open>400 \<le> status < 600\<close>.
\<close>

definition raise_for_status :: "nat \<Rightarrow> bool" where
  "raise_for_status status = (400 \<le> status \<and> status < 600)"

record weather_info =
  temp :: json
  description :: json

record result_item =
  country :: json
  capital :: json
  population :: json
  latlng :: json
  weather :: "weather_info option"

record history_record =
  continent :: string
  searched_at :: int
  results :: "result_item list"

text \<open>
  What the handler reads from its environment: the module constant
  \<^verbatim>\<open>OPENWEATHER_API_KEY\<close> (\<open>None\<close> when the variable is unset), the validation of
  \<^verbatim>\<open>ContinentForm\<close> (defined in \<^verbatim>\<open>forms.py\<close>; it yields the cleaned continent of valid
  data), the two upstream services, the random source of \<^verbatim>\<open>random.sample\<close>, the
  clock, and whether the store answers. The weather service is asked once per
  sampled country; its answer may depend on the position of the call in the
  request as well as on the city asked for.
\<close>

record env =
  api_key :: "string option"
  continent_form :: "(string \<times> string) list \<Rightarrow> string option"
  countries_api :: "string \<Rightarrow> http_result"
  weather_api :: "nat \<Rightarrow> json \<Rightarrow> http_result"
  rng :: "nat \<Rightarrow> nat"
  utcnow :: int
  store_up :: bool

record request =
  http_method :: string  \<comment> \<open>\<^verbatim>\<open>request.method\<close>\<close>
  POST :: "(string \<times> string) list"

text \<open>
  The state that the views change: the documents of \<^verbatim>\<open>history_collection\<close>, in
  insertion order, and the log of the weather queries sent (the \<^verbatim>\<open>q\<close> parameter
  of each).
\<close>

record world =
  history :: "history_record list"
  weather_calls :: "json list"

text \<open>The template context: a dictionary from names to values.\<close>

datatype ctx_value =
    Form
  | Text string
  | Results "result_item list"
  | Searches "history_record list"

datatype response = Render string "(string \<times> ctx_value) list"

section \<open>Sampling without replacement\<close>

text \<open>
  \<^verbatim>\<open>random.sample(xs, k)\<close> raises \<^verbatim>\<open>ValueError\<close> when \<open>k\<close> exceeds the size
  of the population and otherwise selects \<open>k\<close> positions without replacement: it
  copies the population into a pool and, \<open>k\<close> times, draws a position below the
  number of entries still available, takes the entry there and moves the last
  available entry into the vacancy. \<open>r i\<close> is the raw value behind the \<open>i\<close>-th
  draw, reduced to the range asked for. (For populations of more than 21
  elements the library draws positions of the population directly and redraws
  one that was taken already; the selections it can return are the same.)
\<close>

fun sample_pool :: "'a list \<Rightarrow> nat \<Rightarrow> (nat \<Rightarrow> nat) \<Rightarrow> nat \<Rightarrow> 'a list" where
  "sample_pool pool 0 r i = []"
| "sample_pool pool (Suc k) r i =
     (let j = r i mod length pool
      in pool ! j # sample_pool (butlast (pool[j := last pool])) k r (Suc i))"

definition random_sample :: "'a list \<Rightarrow> nat \<Rightarrow> (nat \<Rightarrow> nat) \<Rightarrow> pyerr + 'a list" where
  "random_sample xs k r =
     (if length xs < k then Inl ValueError
      else Inr (sample_pool xs k r 0))"

section \<open>The view \<^verbatim>\<open>home\<close>\<close>

subsection \<open>Field derivation (lines 67 to 71)\<close>

definition derive_name :: "json \<Rightarrow> pyerr + json" where
  "derive_name c =
     and_then (py_get c ''name'' (JObj [])) (\<lambda>n. py_get n ''common'' (JStr ''Unknown''))"

definition derive_capital :: "json \<Rightarrow> pyerr + json" where
  "derive_capital c =
     and_then (py_get c ''capital'' JNull) (\<lambda>v.
       let capital_list = (if truthy v then v else JArr [])
       in if truthy capital_list then index0 capital_list else Inr (JStr ''N/A''))"

definition derive_population :: "json \<Rightarrow> pyerr + json" where
  "derive_population c = py_get c ''population'' (JStr ''N/A'')"

definition derive_latlng :: "json \<Rightarrow> pyerr + json" where
  "derive_latlng c =
     and_then (py_get c ''capitalInfo'' (JObj [])) (\<lambda>ci.
     and_then (py_get ci ''latlng'' JNull) (\<lambda>v.
       if truthy v then Inr v else py_get c ''latlng'' JNull))"

subsection \<open>Weather lookup (lines 77 to 97)\<close>

text \<open>\<^verbatim>\<open>OPENWEATHER_API_KEY\<close> as a condition: set and not the empty string.\<close>

definition key_configured :: "env \<Rightarrow> bool" where
  "key_configured env = (case api_key env of None \<Rightarrow> False | Some k \<Rightarrow> k \<noteq> [])"

text \<open>\<^verbatim>\<open>Response.json()\<close>.\<close>

definition decode :: "json option \<Rightarrow> pyerr + json" where
  "decode body = (case body of None \<Rightarrow> Inl JSONDecodeError | Some v \<Rightarrow> Inr v)"

text \<open>
  The body of the \<^verbatim>\<open>try\<close>: the call, the status test and the construction of the
  dictionary, \<^verbatim>\<open>temp\<close> before \<^verbatim>\<open>description\<close>.
\<close>

definition weather_request :: "env \<Rightarrow> nat \<Rightarrow> json \<Rightarrow> pyerr + weather_info option" where
  "weather_request env j cap =
     (case weather_api env j cap of
        Failed \<Rightarrow> Inl RequestError
      | Response status body \<Rightarrow>
          if status = 200 then
            and_then (decode body) (\<lambda>w_json.
            and_then (py_get w_json ''main'' (JObj [])) (\<lambda>m.
            and_then (py_get m ''temp'' JNull) (\<lambda>t.
            and_then (py_get w_json ''weather'' (JArr [JObj []])) (\<lambda>ws.
            and_then (index0 ws) (\<lambda>w0.
            and_then (py_get w0 ''description'' JNull) (\<lambda>d.
              Inr (Some \<lparr>temp = t, description = d\<rparr>)))))))
          else Inr None)"

text \<open>With its handler: \<^verbatim>\<open>except requests.RequestException: pass\<close>.\<close>

definition fetch_weather :: "env \<Rightarrow> nat \<Rightarrow> json \<Rightarrow> pyerr + weather_info option" where
  "fetch_weather env j cap = try_except is_RequestException (weather_request env j cap) None"

subsection \<open>The loop over the sample (lines 66 to 107)\<close>

definition process_country :: "env \<Rightarrow> nat \<Rightarrow> json \<Rightarrow> world \<Rightarrow> pyerr + (result_item \<times> world)" where
  "process_country env j c w =
     and_then (derive_name c) (\<lambda>name.
     and_then (derive_capital c) (\<lambda>cap.
     and_then (derive_population c) (\<lambda>pop.
     and_then (derive_latlng c) (\<lambda>ll.
       if cap \<noteq> JStr ''N/A'' \<and> key_configured env then
         and_then (fetch_weather env j cap) (\<lambda>weather_info.
           Inr (\<lparr>country = name, capital = cap, population = pop, latlng = ll,
                  weather = weather_info\<rparr>,
                w\<lparr>weather_calls := weather_calls w @ [cap]\<rparr>))
       else
         Inr (\<lparr>country = name, capital = cap, population = pop, latlng = ll,
                weather = None\<rparr>, w)))))"

fun enrich :: "env \<Rightarrow> nat \<Rightarrow> json list \<Rightarrow> world \<Rightarrow> pyerr + (result_item list \<times> world)" where
  "enrich env j [] w = Inr ([], w)"
| "enrich env j (c # cs) w =
     and_then (process_country env j c w) (\<lambda>(item, w1).
     and_then (enrich env (Suc j) cs w1) (\<lambda>(items, w2).
       Inr (item # items, w2)))"

subsection \<open>The store\<close>

definition insert_one :: "env \<Rightarrow> history_record \<Rightarrow> world \<Rightarrow> pyerr + world" where
  "insert_one env doc w =
     (if store_up env then Inr (w\<lparr>history := history w @ [doc]\<rparr>) else Inl PyMongoError)"

text \<open>\<^verbatim>\<open>find().sort("searched_at", -1).limit(20)\<close>, read into a list.\<close>

definition find_sort_limit :: "env \<Rightarrow> world \<Rightarrow> pyerr + history_record list" where
  "find_sort_limit env w =
     (if store_up env then Inr (take 20 (sort_key (\<lambda>d. - searched_at d) (history w)))
      else Inl PyMongoError)"

subsection \<open>The handler (lines 25 to 133)\<close>

text \<open>
  \<^verbatim>\<open>ContinentForm(request.POST or None)\<close> is unbound, hence not valid, when the
  request carries no form data.
\<close>

definition cleaned_continent :: "env \<Rightarrow> request \<Rightarrow> string option" where
  "cleaned_continent env req =
     (if POST req = [] then None else continent_form env (POST req))"

text \<open>Lines 48 to 52, the body of the first \<^verbatim>\<open>try\<close>.\<close>

definition get_countries :: "env \<Rightarrow> string \<Rightarrow> pyerr + json option" where
  "get_countries env region_param =
     (case countries_api env region_param of
        Failed \<Rightarrow> Inl RequestError
      | Response status body \<Rightarrow>
          if raise_for_status status then Inl HTTPError else Inr body)"

definition form_page :: "string option \<Rightarrow> response" where
  "form_page err =
     Render ''continent_form.html''
       ((''form'', Form) # (case err of None \<Rightarrow> [] | Some msg \<Rightarrow> [(''error'', Text msg)]))"

text \<open>Lines 57 to 130: from the decoded country list to the results page.\<close>

definition search :: "env \<Rightarrow> string \<Rightarrow> json option \<Rightarrow> world \<Rightarrow> pyerr + (response \<times> world)" where
  "search env continent_name body w =
     and_then (decode body) (\<lambda>countries_data.
       if \<not> truthy countries_data then
         Inr (form_page (Some ''No countries found for this continent.''), w)
       else
         and_then (as_sequence countries_data) (\<lambda>cs.
         and_then (random_sample cs (min 5 (length cs)) (rng env)) (\<lambda>sample.
         and_then (enrich env 0 sample w) (\<lambda>(res, w1).
         and_then (try_except is_Exception
                     (insert_one env
                        \<lparr>continent = continent_name, searched_at = utcnow env, results = res\<rparr>
                        w1)
                     w1) (\<lambda>w2.
           Inr (Render ''search_results.html''
                  [(''form'', Form), (''continent'', Text continent_name),
                   (''results'', Results res)],
                w2))))))"

definition home :: "env \<Rightarrow> request \<Rightarrow> world \<Rightarrow> pyerr + (response \<times> world)" where
  "home env req w =
     (case (if http_method req = ''POST'' then cleaned_continent env req else None) of
        None \<Rightarrow> Inr (form_page None, w)
      | Some continent_name \<Rightarrow>
          (case get_countries env (lower continent_name) of
             Inl e \<Rightarrow>
               if is_RequestException e
               then Inr (form_page (Some ''Failed to fetch countries data.''), w)
               else Inl e
           | Inr body \<Rightarrow> search env continent_name body w))"

section \<open>The view \<^verbatim>\<open>history_view\<close> (lines 136 to 153)\<close>

definition history_view :: "env \<Rightarrow> request \<Rightarrow> world \<Rightarrow> pyerr + (response \<times> world)" where
  "history_view env req w =
     and_then (try_except is_Exception (find_sort_limit env w) []) (\<lambda>searches.
       Inr (Render ''history.html'' [(''searches'', Searches searches)], w))"

section \<open>Outcomes of the weather call\<close>

text \<open>
  The weather call has failed when \<^verbatim>\<open>requests.get\<close> raised (transport error,
  timeout) or when the status of the response is not 200.
\<close>

fun weather_call_failed :: "http_result \<Rightarrow> bool" where
  "weather_call_failed Failed = True"
| "weather_call_failed (Response status body) = (status \<noteq> 200)"

section \<open>The field derivation as the specification words it\<close>

text \<open>
  A second reading of the four derived fields, following the sentences of the
  specification rather than the code, to compare with \<open>derive_name\<close>,
  \<open>derive_capital\<close>, \<open>derive_population\<close> and \<open>derive_latlng\<close>. \<open>field c k\<close> is
  the field \<open>k\<close> of the record \<open>c\<close> when it is present. \<open>country_record\<close> is the
  shape of a country record in the data model of the specification: an object
  whose name and capital information, when present, are objects, whose capital,
  when present, is a list, and whose coordinates, when present, are pairs.
\<close>

fun field :: "json \<Rightarrow> string \<Rightarrow> json option" where
  "field (JObj kvs) k = map_of kvs k"
| "field _ k = None"

definition is_pair :: "json \<Rightarrow> bool" where
  "is_pair v = (case v of JArr [a, b] \<Rightarrow> True | _ \<Rightarrow> False)"

definition is_object :: "json \<Rightarrow> bool" where
  "is_object v = (case v of JObj kvs \<Rightarrow> True | _ \<Rightarrow> False)"

definition is_array :: "json \<Rightarrow> bool" where
  "is_array v = (case v of JArr xs \<Rightarrow> True | _ \<Rightarrow> False)"

definition country_record :: "json \<Rightarrow> bool" where
  "country_record c =
     (is_object c
      \<and> (case field c ''name'' of None \<Rightarrow> True | Some n \<Rightarrow> is_object n)
      \<and> (case field c ''capital'' of None \<Rightarrow> True | Some v \<Rightarrow> is_array v)
      \<and> (case field c ''capitalInfo'' of
            None \<Rightarrow> True
          | Some ci \<Rightarrow> is_object ci
                       \<and> (case field ci ''latlng'' of None \<Rightarrow> True | Some v \<Rightarrow> is_pair v))
      \<and> (case field c ''latlng'' of None \<Rightarrow> True | Some v \<Rightarrow> is_pair v))"

definition spec_name :: "json \<Rightarrow> json" where
  "spec_name c =
     (case field c ''name'' of
        None \<Rightarrow> JStr ''Unknown''
      | Some n \<Rightarrow> (case field n ''common'' of None \<Rightarrow> JStr ''Unknown'' | Some v \<Rightarrow> v))"

definition spec_capital :: "json \<Rightarrow> json" where
  "spec_capital c =
     (case field c ''capital'' of
        Some (JArr (x # xs)) \<Rightarrow> x
      | _ \<Rightarrow> JStr ''N/A'')"

definition spec_population :: "json \<Rightarrow> json" where
  "spec_population c =
     (case field c ''population'' of None \<Rightarrow> JStr ''N/A'' | Some v \<Rightarrow> v)"

definition spec_coordinates :: "json \<Rightarrow> json" where
  "spec_coordinates c =
     (case (case field c ''capitalInfo'' of None \<Rightarrow> None | Some ci \<Rightarrow> field ci ''latlng'') of
        Some p \<Rightarrow> p
      | None \<Rightarrow> (case field c ''latlng'' of Some p \<Rightarrow> p | None \<Rightarrow> JNull))"

section \<open>Concrete requests and environments\<close>

text \<open>
  A country record as the directory service returns it, a form that accepts any
  submitted continent, and the pieces of the environments used to run the
  handler on concrete inputs.
\<close>

definition france :: json where
  "france = JObj [(''name'', JObj [(''common'', JStr ''France'')]),
                  (''capital'', JArr [JStr ''Paris'']),
                  (''population'', JNum 67),
                  (''latlng'', JArr [JNum 46, JNum 2])]"

definition any_continent :: "(string \<times> string) list \<Rightarrow> string option" where
  "any_continent d = map_of d ''continent''"

definition just_france :: "string \<Rightarrow> http_result" where
  "just_france region = Response 200 (Some (JArr [france]))"

definition multiple_choices :: "string \<Rightarrow> http_result" where
  "multiple_choices region = Response 300 (Some (JArr [JObj []]))"

definition unreachable :: "string \<Rightarrow> http_result" where
  "unreachable region = Failed"

definition no_countries :: "string \<Rightarrow> http_result" where
  "no_countries region = Response 200 (Some (JArr []))"

definition empty_weather_list :: "nat \<Rightarrow> json \<Rightarrow> http_result" where
  "empty_weather_list j q = Response 200 (Some (JObj [(''weather'', JArr [])]))"

definition first_position :: "nat \<Rightarrow> nat" where
  "first_position i = 0"

definition base_env :: env where
  "base_env = \<lparr>api_key = Some ''key'', continent_form = any_continent,
                countries_api = just_france, weather_api = empty_weather_list,
                rng = first_position, utcnow = 7, store_up = True\<rparr>"

definition post_europe :: request where
  "post_europe = \<lparr>http_method = ''POST'', POST = [(''continent'', ''Europe'')]\<rparr>"

definition empty_world :: world where
  "empty_world = \<lparr>history = [], weather_calls = []\<rparr>"

definition country_of :: "string \<Rightarrow> string \<Rightarrow> json" where
  "country_of n cap = JObj [(''name'', JObj [(''common'', JStr n)]), (''capital'', JArr [JStr cap])]"

definition six_countries :: "json list" where
  "six_countries =
     [france, country_of ''Spain'' ''Madrid'', country_of ''Italy'' ''Rome'',
      country_of ''Austria'' ''Vienna'', country_of ''Norway'' ''Oslo'',
      country_of ''Greece'' ''Athens'']"

definition six_of_europe :: "string \<Rightarrow> http_result" where
  "six_of_europe region = Response 200 (Some (JArr six_countries))"

definition clear_sky :: "nat \<Rightarrow> json \<Rightarrow> http_result" where
  "clear_sky j q =
     Response 200 (Some (JObj [(''main'', JObj [(''temp'', JNum 21)]),
                               (''weather'', JArr [JObj [(''description'', JStr ''clear sky'')]])]))"

definition good_env :: env where
  "good_env = \<lparr>api_key = Some ''key'', continent_form = any_continent,
                countries_api = six_of_europe, weather_api = clear_sky,
                rng = first_position, utcnow = 7, store_up = True\<rparr>"

definition get_history :: request where
  "get_history = \<lparr>http_method = ''GET'', POST = []\<rparr>"

definition two_searches :: world where
  "two_searches =
     \<lparr>history = [\<lparr>continent = ''Asia'', searched_at = 1, results = []\<rparr>,
                 \<lparr>continent = ''Europe'', searched_at = 5, results = []\<rparr>],
      weather_calls = []\<rparr>"

definition second_call_fails :: "nat \<Rightarrow> json \<Rightarrow> http_result" where
  "second_call_fails j q = (if j = 1 then Response 503 None else clear_sky j q)"

definition paris_item :: result_item where
  "paris_item = \<lparr>country = JStr ''France'', capital = JStr ''Paris'', population = JNum 67,
                  latlng = JArr [JNum 46, JNum 2],
                  weather = Some \<lparr>temp = JNum 21, description = JStr ''clear sky''\<rparr>\<rparr>"

definition antarctica :: json where
  "antarctica = JObj [(''name'', JObj [(''common'', JStr ''Antarctica'')]),
                      (''capital'', JArr []),
                      (''capitalInfo'', JObj []),
                      (''latlng'', JArr [JNum (-90), JNum 0])]"

definition empty_body :: "nat \<Rightarrow> json \<Rightarrow> http_result" where
  "empty_body j q = Response 200 (Some (JObj []))"

section \<open>Basic facts\<close>

lemma and_then_simps:
  "and_then (Inl e) f = Inl e"
  "and_then (Inr v) f = f v"
  by (simp_all add: and_then_def)

lemma try_except_simps:
  "try_except h (Inl e) d = (if h e then Inr d else Inl e)"
  "try_except h (Inr v) d = Inr v"
  by (simp_all add: try_except_def)

lemma try_insert:
  "try_except is_Exception (insert_one env doc w1) w1 =
     Inr (if store_up env then w1\<lparr>history := history w1 @ [doc]\<rparr> else w1)"
  by (simp add: insert_one_def try_except_simps is_Exception_def)

lemma post_europe_valid:
  "http_method post_europe = ''POST''"
  "cleaned_continent (base_env\<lparr>countries_api := f\<rparr>) post_europe = Some ''Europe''"
  "cleaned_continent base_env post_europe = Some ''Europe''"
  by (simp_all add: post_europe_def base_env_def cleaned_continent_def any_continent_def)

section \<open>Failure of the country lookup\<close>

text \<open>
  C2, as the handler implements it: when the country lookup raises a
  \<^verbatim>\<open>RequestException\<close>, that is on a transport failure (network error, timeout)
  or on a response with a client or server error status (400 to 599), a valid
  submission is answered with the form page carrying the message
  "Failed to fetch countries data." and the world is left as it was: no history
  record is written and no weather query is sent.
\<close>

theorem countries_fetch_error_page:
  assumes "http_method req = ''POST''" and "cleaned_continent env req = Some cn"
    and "countries_api env (lower cn) = Failed \<or>
         (\<exists>status body. countries_api env (lower cn) = Response status body
            \<and> 400 \<le> status \<and> status < 600)"
  shows "home env req w =
         Inr (Render ''continent_form.html''
                [(''form'', Form), (''error'', Text ''Failed to fetch countries data.'')], w)"
  using assms
  by (auto simp: home_def get_countries_def raise_for_status_def form_page_def)

theorem countries_fetch_error_page_witness:
  "http_method post_europe = ''POST''
   \<and> cleaned_continent (base_env\<lparr>countries_api := unreachable\<rparr>) post_europe = Some ''Europe''
   \<and> countries_api (base_env\<lparr>countries_api := unreachable\<rparr>) (lower ''Europe'') = Failed
   \<and> home (base_env\<lparr>countries_api := unreachable\<rparr>) post_europe empty_world =
       Inr (Render ''continent_form.html''
              [(''form'', Form), (''error'', Text ''Failed to fetch countries data.'')],
            empty_world)"
proof -
  have f: "countries_api (base_env\<lparr>countries_api := unreachable\<rparr>) (lower ''Europe'') = Failed"
    by (simp add: unreachable_def)
  show ?thesis
    using countries_fetch_error_page [OF post_europe_valid(1) post_europe_valid(2),
        of unreachable empty_world] f
    by (simp add: post_europe_valid)
qed

text \<open>
  C2 as stated also counts every status outside 200 to 299 as a failure. A
  response with status 300 is not one for \<^verbatim>\<open>raise_for_status\<close>: the handler goes
  on, renders the results page and writes a history record.
\<close>

theorem status_300_is_not_a_failure:
  "countries_api (base_env\<lparr>countries_api := multiple_choices\<rparr>) (lower ''Europe'')
     = Response 300 (Some (JArr [JObj []]))
   \<and> home (base_env\<lparr>countries_api := multiple_choices\<rparr>) post_europe empty_world =
       Inr (Render ''search_results.html''
              [(''form'', Form), (''continent'', Text ''Europe''),
               (''results'', Results
                  [\<lparr>country = JStr ''Unknown'', capital = JStr ''N/A'',
                    population = JStr ''N/A'', latlng = JNull, weather = None\<rparr>])],
            \<lparr>history =
               [\<lparr>continent = ''Europe'', searched_at = 7,
                 results =
                   [\<lparr>country = JStr ''Unknown'', capital = JStr ''N/A'',
                     population = JStr ''N/A'', latlng = JNull, weather = None\<rparr>]\<rparr>],
             weather_calls = []\<rparr>)"
  by code_simp

text \<open>
  C3: when the lookup returns a response that \<^verbatim>\<open>raise_for_status\<close> accepts and
  whose body is the empty list, a valid submission is answered with the form
  page carrying the message "No countries found for this continent." and the
  world is left as it was.
\<close>

theorem empty_country_list_error_page:
  assumes "http_method req = ''POST''" and "cleaned_continent env req = Some cn"
    and "countries_api env (lower cn) = Response status (Some (JArr []))"
    and "\<not> raise_for_status status"
  shows "home env req w =
         Inr (Render ''continent_form.html''
                [(''form'', Form), (''error'', Text ''No countries found for this continent.'')], w)"
  using assms
  by (simp add: home_def get_countries_def search_def decode_def and_then_simps form_page_def)

theorem empty_country_list_error_page_witness:
  "http_method post_europe = ''POST''
   \<and> cleaned_continent (base_env\<lparr>countries_api := no_countries\<rparr>) post_europe = Some ''Europe''
   \<and> countries_api (base_env\<lparr>countries_api := no_countries\<rparr>) (lower ''Europe'')
       = Response 200 (Some (JArr []))
   \<and> \<not> raise_for_status 200
   \<and> home (base_env\<lparr>countries_api := no_countries\<rparr>) post_europe empty_world =
       Inr (Render ''continent_form.html''
              [(''form'', Form), (''error'', Text ''No countries found for this continent.'')],
            empty_world)"
proof -
  have f: "countries_api (base_env\<lparr>countries_api := no_countries\<rparr>) (lower ''Europe'')
           = Response 200 (Some (JArr []))"
    by (simp add: no_countries_def)
  have r: "\<not> raise_for_status 200"
    by (simp add: raise_for_status_def)
  show ?thesis
    using empty_country_list_error_page [OF post_europe_valid(1) post_europe_valid(2) f r,
        of empty_world] f r
    by (simp add: post_europe_valid)
qed

section \<open>The sample\<close>

lemma mset_pick:
  assumes "j < length pool"
  shows "mset (pool ! j # butlast (pool[j := last pool])) = mset pool"
proof (cases pool rule: rev_cases)
  case Nil
  with assms show ?thesis by simp
next
  case (snoc ys y)
  show ?thesis
  proof (cases "j < length ys")
    case True
    then have "pool[j := last pool] = ys[j := y] @ [y]"
      using snoc by (simp add: list_update_append)
    moreover have "pool ! j = ys ! j"
      using True snoc by (simp add: nth_append)
    moreover have "ys ! j \<in># mset ys"
      using True by simp
    ultimately show ?thesis
      using True snoc by (simp add: mset_update)
  next
    case False
    with assms snoc have "j = length ys" by simp
    then show ?thesis using snoc by simp
  qed
qed

lemma sample_pool_length: "length (sample_pool pool k r i) = k"
  by (induction k arbitrary: pool i) (simp_all add: Let_def)

lemma sample_pool_mset:
  "k \<le> length pool \<Longrightarrow> mset (sample_pool pool k r i) \<subseteq># mset pool"
proof (induction k arbitrary: pool i)
  case 0
  then show ?case by simp
next
  case (Suc k)
  define j where "j = r i mod length pool"
  define rest where "rest = butlast (pool[j := last pool])"
  from Suc.prems have ne: "pool \<noteq> []" by auto
  then have j: "j < length pool" by (simp add: j_def)
  have "k \<le> length rest" using Suc.prems ne by (simp add: rest_def)
  then have "mset (sample_pool rest k r (Suc i)) \<subseteq># mset rest" by (rule Suc.IH)
  then have "add_mset (pool ! j) (mset (sample_pool rest k r (Suc i))) \<subseteq># add_mset (pool ! j) (mset rest)"
    by simp
  also have "add_mset (pool ! j) (mset rest) = mset pool"
    using mset_pick [OF j] by (simp add: rest_def)
  finally show ?case by (simp add: Let_def j_def rest_def)
qed

lemma distinct_submset:
  assumes "mset ys \<subseteq># mset xs" "distinct xs"
  shows "distinct ys"
proof -
  have "count (mset ys) a = (if a \<in> set ys then 1 else 0)" for a
  proof (cases "a \<in> set ys")
    case True
    then have "0 < count (mset ys) a" by simp
    moreover have "count (mset ys) a \<le> count (mset xs) a"
      using assms(1) by (rule mset_subset_eq_count)
    moreover have "count (mset xs) a \<le> 1"
      using assms(2) by (simp add: distinct_count_atmost_1)
    ultimately have "count (mset ys) a = 1" by linarith
    then show ?thesis using True by simp
  next
    case False
    then show ?thesis by (simp add: count_mset_0_iff)
  qed
  then show ?thesis by (simp add: distinct_count_atmost_1)
qed

lemma sample_pool_distinct:
  assumes "k \<le> length pool" "distinct pool"
  shows "distinct (sample_pool pool k r i)"
  using sample_pool_mset [OF assms(1)] assms(2) by (rule distinct_submset)

lemma sample_pool_subset:
  assumes "k \<le> length pool"
  shows "set (sample_pool pool k r i) \<subseteq> set pool"
  using set_mset_mono [OF sample_pool_mset [OF assms]] by simp

lemma sample_pool_map:
  "k \<le> length pool \<Longrightarrow> sample_pool (map f pool) k r i = map f (sample_pool pool k r i)"
proof (induction k arbitrary: pool i)
  case 0
  then show ?case by simp
next
  case (Suc k)
  then have ne: "pool \<noteq> []" by auto
  then have j: "r i mod length pool < length pool" by simp
  have "k \<le> length (butlast (pool[r i mod length pool := last pool]))"
    using Suc.prems ne by simp
  from Suc.IH [OF this] show ?case
    using ne j by (simp add: Let_def last_map map_butlast map_update)
qed

lemma random_sample_positions:
  assumes "k \<le> length xs"
  shows "\<exists>idxs. random_sample xs k r = Inr (map (\<lambda>i. xs ! i) idxs) \<and> length idxs = k
           \<and> distinct idxs \<and> (\<forall>i\<in>set idxs. i < length xs)"
proof -
  let ?idxs = "sample_pool [0..<length xs] k r 0"
  have "sample_pool (map (\<lambda>i. xs ! i) [0..<length xs]) k r 0 = map (\<lambda>i. xs ! i) ?idxs"
    using assms by (simp add: sample_pool_map)
  then have "random_sample xs k r = Inr (map (\<lambda>i. xs ! i) ?idxs)"
    using assms by (simp add: random_sample_def map_nth)
  moreover have "length ?idxs = k" by (rule sample_pool_length)
  moreover have "distinct ?idxs" using assms by (simp add: sample_pool_distinct)
  moreover have "\<forall>i\<in>set ?idxs. i < length xs"
    using sample_pool_subset [of k "[0..<length xs]" r 0] assms by auto
  ultimately show ?thesis by blast
qed

section \<open>The loop and the results page\<close>

lemma process_country_history:
  "process_country env j c w = Inr (item, w') \<Longrightarrow> history w' = history w"
  by (auto simp: process_country_def and_then_def split: sum.splits if_splits)

lemma enrich_history:
  "enrich env j cs w = Inr (items, w') \<Longrightarrow> history w' = history w"
proof (induction cs arbitrary: j w items)
  case Nil
  then show ?case by simp
next
  case (Cons c cs)
  then show ?case
    by (auto simp: and_then_def split: sum.splits prod.splits dest: process_country_history)
qed

lemma enrich_items:
  "enrich env j cs w = Inr (items, w') \<Longrightarrow>
     length items = length cs \<and>
     (\<forall>n<length cs. \<exists>wa wb. process_country env (j + n) (cs ! n) wa = Inr (items ! n, wb))"
proof (induction cs arbitrary: j w items)
  case Nil
  then show ?case by simp
next
  case (Cons c cs)
  from Cons.prems obtain item w1 rest where
    pc: "process_country env j c w = Inr (item, w1)" and
    en: "enrich env (Suc j) cs w1 = Inr (rest, w')" and
    items: "items = item # rest"
    by (auto simp: and_then_def split: sum.splits prod.splits)
  from Cons.IH [OF en] have len: "length rest = length cs"
    and each: "\<And>n. n < length cs \<Longrightarrow>
                 \<exists>wa wb. process_country env (Suc j + n) (cs ! n) wa = Inr (rest ! n, wb)"
    by auto
  have "\<exists>wa wb. process_country env (j + n) ((c # cs) ! n) wa = Inr (items ! n, wb)"
    if "n < length (c # cs)" for n
  proof (cases n)
    case 0
    then show ?thesis using pc items by auto
  next
    case (Suc m)
    then show ?thesis using each [of m] that items by simp
  qed
  then show ?case using len items by simp
qed

lemma search_list:
  assumes "cs \<noteq> []"
  shows "search env cn (Some (JArr cs)) w =
     and_then (and_then (random_sample cs (min 5 (length cs)) (rng env))
                 (\<lambda>sample. enrich env 0 sample w))
       (\<lambda>(res, w1).
          Inr (Render ''search_results.html''
                 [(''form'', Form), (''continent'', Text cn), (''results'', Results res)],
               if store_up env
               then w1\<lparr>history := history w1 @
                      [\<lparr>continent = cn, searched_at = utcnow env, results = res\<rparr>]\<rparr>
               else w1))"
  using assms
  by (simp add: search_def decode_def try_insert and_then_def split: sum.splits prod.splits)

lemma home_list:
  assumes "http_method req = ''POST''" and "cleaned_continent env req = Some cn"
    and "countries_api env (lower cn) = Response status (Some (JArr cs))"
    and "\<not> raise_for_status status"
  shows "home env req w = search env cn (Some (JArr cs)) w"
  using assms by (simp add: home_def get_countries_def)

text \<open>
  What the sampling does: a valid submission for which the lookup returns a
  non-empty list of \<open>N\<close> countries draws \<open>min 5 N\<close> pairwise distinct positions of
  that list. The loop runs over the countries at these positions, in this
  order: either it raises, and so does the handler, or it yields exactly
  \<open>min 5 N\<close> result items, the \<open>n\<close>-th being what the loop body makes of the
  country at the \<open>n\<close>-th drawn position, and the handler renders exactly these.
\<close>

lemma sample_results:
  assumes "http_method req = ''POST''" and "cleaned_continent env req = Some cn"
    and "countries_api env (lower cn) = Response status (Some (JArr cs))"
    and "\<not> raise_for_status status" and "cs \<noteq> []"
  shows "\<exists>idxs. length idxs = min 5 (length cs) \<and> distinct idxs
      \<and> (\<forall>i\<in>set idxs. i < length cs) \<and>
      (case enrich env 0 (map (\<lambda>i. cs ! i) idxs) w of
         Inl e \<Rightarrow> home env req w = Inl e
       | Inr (items, w1) \<Rightarrow>
           length items = min 5 (length cs) \<and>
           (\<forall>n<length items. \<exists>wa wb.
              process_country env n (cs ! (idxs ! n)) wa = Inr (items ! n, wb)) \<and>
           (\<exists>w'. home env req w =
              Inr (Render ''search_results.html''
                     [(''form'', Form), (''continent'', Text cn),
                      (''results'', Results items)], w')))"
proof -
  obtain idxs where
    rs: "random_sample cs (min 5 (length cs)) (rng env) = Inr (map (\<lambda>i. cs ! i) idxs)" and
    len: "length idxs = min 5 (length cs)" and dist: "distinct idxs" and
    rng: "\<forall>i\<in>set idxs. i < length cs"
    using random_sample_positions [of "min 5 (length cs)" cs "rng env"] by auto
  have home: "home env req w = search env cn (Some (JArr cs)) w"
    using assms(1-4) by (rule home_list)
  show ?thesis
  proof (cases "enrich env 0 (map (\<lambda>i. cs ! i) idxs) w")
    case (Inl e)
    then have "home env req w = Inl e"
      by (simp add: home search_list [OF assms(5)] rs and_then_simps)
    then show ?thesis using Inl len dist rng by auto
  next
    case (Inr p)
    obtain items w1 where p: "p = (items, w1)" by (cases p)
    from enrich_items [OF Inr [unfolded p]]
    have l: "length items = length idxs"
      and each: "\<forall>n<length idxs. \<exists>wa wb.
                   process_country env n (cs ! (idxs ! n)) wa = Inr (items ! n, wb)"
      by auto
    have "\<exists>w'. home env req w =
              Inr (Render ''search_results.html''
                     [(''form'', Form), (''continent'', Text cn),
                      (''results'', Results items)], w')"
      using Inr p by (simp add: home search_list [OF assms(5)] rs and_then_simps)
    then show ?thesis using Inr p len dist rng l each by auto
  qed
qed

lemma good_env_valid:
  "cleaned_continent good_env post_europe = Some ''Europe''"
  "countries_api good_env (lower ''Europe'') = Response 200 (Some (JArr six_countries))"
  "\<not> raise_for_status 200"
  "six_countries \<noteq> []"
  by (simp_all add: post_europe_def good_env_def cleaned_continent_def any_continent_def
      six_of_europe_def raise_for_status_def six_countries_def)

lemma sample_results_example:
  "http_method post_europe = ''POST''
   \<and> cleaned_continent good_env post_europe = Some ''Europe''
   \<and> countries_api good_env (lower ''Europe'') = Response 200 (Some (JArr six_countries))
   \<and> \<not> raise_for_status 200
   \<and> six_countries \<noteq> []
   \<and> (\<exists>idxs. length idxs = min 5 (length six_countries) \<and> distinct idxs
      \<and> (\<forall>i\<in>set idxs. i < length six_countries) \<and>
      (case enrich good_env 0 (map (\<lambda>i. six_countries ! i) idxs) empty_world of
         Inl e \<Rightarrow> home good_env post_europe empty_world = Inl e
       | Inr (items, w1) \<Rightarrow>
           length items = min 5 (length six_countries) \<and>
           (\<forall>n<length items. \<exists>wa wb.
              process_country good_env n (six_countries ! (idxs ! n)) wa = Inr (items ! n, wb)) \<and>
           (\<exists>w'. home good_env post_europe empty_world =
              Inr (Render ''search_results.html''
                     [(''form'', Form), (''continent'', Text ''Europe''),
                      (''results'', Results items)], w'))))"
  using sample_results [OF post_europe_valid(1) good_env_valid, of empty_world]
    post_europe_valid(1) good_env_valid
  by blast

text \<open>
  C1 says that every non-empty country list of size \<open>N\<close> yields exactly \<open>min 5 N\<close>
  result items. The sample is drawn as claimed, but the items are only made if
  the loop survives every weather response. With six countries and a weather
  service that answers 200 with an empty \<^verbatim>\<open>weather\<close> list, five countries are
  sampled, the loop raises \<^verbatim>\<open>IndexError\<close> on the first of them, and the handler
  raises with it: no result item is produced.
\<close>

theorem sampled_countries_yield_no_items:
  "countries_api (good_env\<lparr>weather_api := empty_weather_list\<rparr>) (lower ''Europe'')
     = Response 200 (Some (JArr six_countries))
   \<and> length six_countries = 6
   \<and> random_sample six_countries (min 5 (length six_countries))
        (rng (good_env\<lparr>weather_api := empty_weather_list\<rparr>))
       = Inr [france, country_of ''Greece'' ''Athens'', country_of ''Norway'' ''Oslo'',
              country_of ''Austria'' ''Vienna'', country_of ''Italy'' ''Rome'']
   \<and> enrich (good_env\<lparr>weather_api := empty_weather_list\<rparr>) 0
         [france, country_of ''Greece'' ''Athens'', country_of ''Norway'' ''Oslo'',
          country_of ''Austria'' ''Vienna'', country_of ''Italy'' ''Rome''] empty_world
       = Inl IndexError
   \<and> home (good_env\<lparr>weather_api := empty_weather_list\<rparr>) post_europe empty_world
       = Inl IndexError"
  by code_simp

section \<open>The store\<close>

lemma process_country_store_up [simp]:
  "process_country (env\<lparr>store_up := b\<rparr>) j c w = process_country env j c w"
  by (simp add: process_country_def fetch_weather_def weather_request_def key_configured_def
      cong: if_cong)

lemma enrich_store_up [simp]:
  "enrich (env\<lparr>store_up := b\<rparr>) j cs w = enrich env j cs w"
  by (induction cs arbitrary: j w) simp_all

lemma search_store_independent:
  "map_sum id fst (search (env\<lparr>store_up := b\<rparr>) cn body w) = map_sum id fst (search env cn body w)"
  by (simp add: search_def try_insert and_then_def split: sum.splits prod.splits)

lemma home_store_independent:
  "map_sum id fst (home (env\<lparr>store_up := b\<rparr>) req w) = map_sum id fst (home env req w)"
  using search_store_independent [where env = env and b = b]
  by (simp add: home_def get_countries_def cleaned_continent_def
      split: option.splits sum.splits http_result.splits)

lemma and_then_Inl:
  "and_then r f = Inl e \<Longrightarrow> r = Inl e \<or> (\<exists>v. r = Inr v \<and> f v = Inl e)"
  by (cases r) (simp_all add: and_then_def)

lemma py_get_error: "py_get x k d = Inl e \<Longrightarrow> e = AttributeError"
  by (cases x) simp_all

lemma index0_error: "index0 x = Inl e \<Longrightarrow> e \<in> {IndexError, KeyError, TypeError}"
  by (cases x) (auto split: list.splits)

lemma derive_errors:
  "derive_name c = Inl e \<Longrightarrow> e \<noteq> PyMongoError"
  "derive_capital c = Inl e \<Longrightarrow> e \<noteq> PyMongoError"
  "derive_population c = Inl e \<Longrightarrow> e \<noteq> PyMongoError"
  "derive_latlng c = Inl e \<Longrightarrow> e \<noteq> PyMongoError"
  by (auto simp: derive_name_def derive_capital_def derive_population_def derive_latlng_def
      Let_def dest!: and_then_Inl py_get_error index0_error split: if_splits)

lemma fetch_weather_error: "fetch_weather env j cap = Inl e \<Longrightarrow> e \<noteq> PyMongoError"
  by (auto simp: fetch_weather_def weather_request_def try_except_def decode_def
      dest!: and_then_Inl py_get_error index0_error
      split: sum.splits if_splits http_result.splits option.splits)

lemma process_country_error: "process_country env j c w = Inl e \<Longrightarrow> e \<noteq> PyMongoError"
  unfolding process_country_def
  by (auto dest!: and_then_Inl split: if_splits dest: derive_errors fetch_weather_error)

lemma enrich_error: "enrich env j cs w = Inl e \<Longrightarrow> e \<noteq> PyMongoError"
proof (induction cs arbitrary: j w)
  case Nil
  then show ?case by simp
next
  case (Cons c cs)
  from Cons.prems have
    "process_country env j c w = Inl e \<or>
     (\<exists>item w1. process_country env j c w = Inr (item, w1) \<and> enrich env (Suc j) cs w1 = Inl e)"
    by (auto simp: and_then_def split: sum.splits prod.splits)
  then show ?case using Cons.IH process_country_error by blast
qed

lemma as_sequence_error: "as_sequence x = Inl e \<Longrightarrow> e = TypeError"
  by (cases x) simp_all

lemma search_error: "search env cn body w = Inl e \<Longrightarrow> e \<noteq> PyMongoError"
  unfolding search_def
  by (auto simp: try_insert decode_def random_sample_def
      dest!: and_then_Inl as_sequence_error dest: enrich_error
      split: if_splits option.splits prod.splits)

lemma home_error: "home env req w = Inl e \<Longrightarrow> e \<noteq> PyMongoError"
  unfolding home_def
  by (auto simp: get_countries_def dest: search_error
      split: if_splits option.splits sum.splits http_result.splits)

text \<open>
  C6: the response of the handler does not depend on the store. With a store
  that rejects every insert the handler returns the same response (or raises the
  same exception, one that arises before the insert) as with a store that accepts
  it, and a failure of the store never leaves the handler.
\<close>

theorem insert_failure_invisible:
  "map_sum id fst (home (env\<lparr>store_up := False\<rparr>) req w)
     = map_sum id fst (home (env\<lparr>store_up := True\<rparr>) req w)
   \<and> home env req w \<noteq> Inl PyMongoError"
  using home_error [of env req w PyMongoError]
  by (auto simp: home_store_independent)

section \<open>Responses the handler does not survive\<close>

text \<open>
  C9 says that the handler returns a renderable outcome for every upstream
  response, a weather response with status 200 and an empty \<^verbatim>\<open>weather\<close> list
  included. On that response \<^verbatim>\<open>w_json.get("weather", [{}])[0]\<close> raises
  \<^verbatim>\<open>IndexError\<close>, which is no \<^verbatim>\<open>RequestException\<close>: the handler raises.
\<close>

theorem home_raises_on_empty_weather_list:
  "countries_api base_env (lower ''Europe'') = Response 200 (Some (JArr [france]))
   \<and> weather_api base_env 0 (JStr ''Paris'') = Response 200 (Some (JObj [(''weather'', JArr [])]))
   \<and> home base_env post_europe empty_world = Inl IndexError"
  by code_simp

section \<open>History retrieval\<close>

lemma take_of_sorted_newest:
  assumes "sorted_wrt R xs"
  shows "\<forall>a\<in>set (take n xs). \<forall>b\<in>#(mset xs - mset (take n xs)). R a b"
proof -
  have "sorted_wrt R (take n xs @ drop n xs)" using assms by simp
  then have "\<forall>a\<in>set (take n xs). \<forall>b\<in>set (drop n xs). R a b"
    unfolding sorted_wrt_append by blast
  moreover have "mset xs - mset (take n xs) = mset (drop n xs)"
    by (metis add_diff_cancel_left' append_take_drop_id mset_append)
  ultimately show ?thesis by simp
qed

text \<open>
  C7: \<^verbatim>\<open>history_view\<close> always returns the history page, never an exception, with
  at most 20 records ordered by \<^verbatim>\<open>searched_at\<close> from the newest to the oldest.
  When the store fails the list is empty; when it answers, the list holds the
  20 newest records of the collection (all of them when there are fewer): no
  record left out is newer than one returned.
\<close>

theorem history_view_latest_twenty:
  "\<exists>searches.
     history_view env req w = Inr (Render ''history.html'' [(''searches'', Searches searches)], w)
     \<and> length searches \<le> 20
     \<and> sorted_wrt (\<lambda>a b. searched_at b \<le> searched_at a) searches
     \<and> (\<not> store_up env \<longrightarrow> searches = [])
     \<and> (store_up env \<longrightarrow>
          length searches = min 20 (length (history w))
          \<and> mset searches \<subseteq># mset (history w)
          \<and> (\<forall>a\<in>set searches. \<forall>b\<in>#(mset (history w) - mset searches).
                searched_at b \<le> searched_at a))"
proof (cases "store_up env")
  case True
  let ?all = "sort_key (\<lambda>d. - searched_at d) (history w)"
  have "sorted (map (\<lambda>d. - searched_at d) ?all)"
    by simp
  then have all: "sorted_wrt (\<lambda>a b. searched_at b \<le> searched_at a) ?all"
    by (simp add: sorted_wrt_map)
  then have "sorted_wrt (\<lambda>a b. searched_at b \<le> searched_at a) (take 20 ?all)"
    by (rule sorted_wrt_take)
  moreover have "mset (take 20 ?all) \<subseteq># mset (history w)"
    by (metis mset_sort append_take_drop_id mset_append mset_subset_eq_add_left)
  moreover have "\<forall>a\<in>set (take 20 ?all). \<forall>b\<in>#(mset (history w) - mset (take 20 ?all)).
                searched_at b \<le> searched_at a"
    using take_of_sorted_newest [OF all, of 20] by simp
  ultimately show ?thesis using True
    by (simp add: history_view_def find_sort_limit_def try_except_simps and_then_simps)
next
  case False
  then show ?thesis
    by (simp add: history_view_def find_sort_limit_def try_except_simps and_then_simps
        is_Exception_def)
qed

lemma history_view_example:
  "history_view base_env get_history two_searches =
     Inr (Render ''history.html''
            [(''searches'', Searches [\<lparr>continent = ''Europe'', searched_at = 5, results = []\<rparr>,
                                      \<lparr>continent = ''Asia'', searched_at = 1, results = []\<rparr>])],
          two_searches)"
  by code_simp

theorem history_view_latest_twenty_witness:
  "\<not> store_up (base_env\<lparr>store_up := False\<rparr>)
   \<and> history_view (base_env\<lparr>store_up := False\<rparr>) get_history two_searches =
       Inr (Render ''history.html'' [(''searches'', Searches [])], two_searches)
   \<and> store_up base_env
   \<and> history_view base_env get_history two_searches =
       Inr (Render ''history.html''
              [(''searches'', Searches [\<lparr>continent = ''Europe'', searched_at = 5, results = []\<rparr>,
                                        \<lparr>continent = ''Asia'', searched_at = 1, results = []\<rparr>])],
            two_searches)
   \<and> length [\<lparr>continent = ''Europe'', searched_at = 5, results = []\<rparr>,
              \<lparr>continent = ''Asia'', searched_at = 1, results = []\<rparr>]
       = min 20 (length (history two_searches))"
proof -
  have down: "\<not> store_up (base_env\<lparr>store_up := False\<rparr>)" by simp
  have up: "store_up base_env" by (simp add: base_env_def)
  from history_view_latest_twenty [of "base_env\<lparr>store_up := False\<rparr>" get_history two_searches]
  obtain searches where
    "history_view (base_env\<lparr>store_up := False\<rparr>) get_history two_searches =
       Inr (Render ''history.html'' [(''searches'', Searches searches)], two_searches)"
    and "\<not> store_up (base_env\<lparr>store_up := False\<rparr>) \<longrightarrow> searches = []"
    by blast
  with down have first:
    "history_view (base_env\<lparr>store_up := False\<rparr>) get_history two_searches =
       Inr (Render ''history.html'' [(''searches'', Searches [])], two_searches)"
    by simp
  from history_view_latest_twenty [of base_env get_history two_searches]
  obtain found where
    "history_view base_env get_history two_searches =
       Inr (Render ''history.html'' [(''searches'', Searches found)], two_searches)"
    and "store_up base_env \<longrightarrow> length found = min 20 (length (history two_searches))"
    by blast
  with up history_view_example have
    "length [\<lparr>continent = ''Europe'', searched_at = 5, results = []\<rparr>,
             \<lparr>continent = ''Asia'', searched_at = 1, results = []\<rparr>]
       = min 20 (length (history two_searches))"
    by simp
  with down up first history_view_example show ?thesis by blast
qed

section \<open>Weather enrichment\<close>

lemma fetch_weather_failed:
  "weather_call_failed (weather_api env j cap) \<Longrightarrow> fetch_weather env j cap = Inr None"
  by (cases "weather_api env j cap")
     (simp_all add: fetch_weather_def weather_request_def try_except_simps)

lemma process_country_no_attempt:
  assumes "derive_name c = Inr name" "derive_capital c = Inr cap"
    "derive_population c = Inr pop" "derive_latlng c = Inr ll"
    and "cap = JStr ''N/A'' \<or> \<not> key_configured env"
  shows "process_country env j c w =
     Inr (\<lparr>country = name, capital = cap, population = pop, latlng = ll, weather = None\<rparr>, w)"
  using assms by (auto simp: process_country_def and_then_simps)

lemma process_country_failed:
  assumes "derive_name c = Inr name" "derive_capital c = Inr cap"
    "derive_population c = Inr pop" "derive_latlng c = Inr ll"
    and "cap \<noteq> JStr ''N/A''" "key_configured env"
    and "weather_call_failed (weather_api env j cap)"
  shows "process_country env j c w =
     Inr (\<lparr>country = name, capital = cap, population = pop, latlng = ll, weather = None\<rparr>,
          w\<lparr>weather_calls := weather_calls w @ [cap]\<rparr>)"
  using assms by (simp add: process_country_def and_then_simps fetch_weather_failed)

lemma process_country_other_position:
  assumes "api_key env' = api_key env" and "\<forall>q. weather_api env' m q = weather_api env m q"
  shows "process_country env' m c w = process_country env m c w"
  using assms
  by (simp add: process_country_def fetch_weather_def weather_request_def key_configured_def
      cong: if_cong)

lemma process_country_own_position:
  assumes "process_country env n c w = Inr (item, w1)"
    and "api_key env' = api_key env" and "\<forall>q. weather_call_failed (weather_api env' n q)"
  shows "process_country env' n c w = Inr (item\<lparr>weather := None\<rparr>, w1)"
proof -
  have fw: "fetch_weather env' n q = Inr None" for q
    using assms(3) by (simp add: fetch_weather_failed)
  have key: "key_configured env' = key_configured env"
    using assms(2) by (simp add: key_configured_def)
  show ?thesis
    using assms(1) unfolding process_country_def
    by (auto simp: and_then_def fw key split: sum.splits if_splits)
qed

lemma enrich_failure_isolated_gen:
  assumes "enrich env j cs w = Inr (items, w')"
    and "api_key env' = api_key env"
    and "\<forall>m q. m \<noteq> n \<longrightarrow> weather_api env' m q = weather_api env m q"
    and "\<forall>q. weather_call_failed (weather_api env' n q)"
  shows "enrich env' j cs w =
         Inr (if j \<le> n then items[n - j := (items ! (n - j))\<lparr>weather := None\<rparr>] else items, w')"
  using assms(1)
proof (induction cs arbitrary: j w items)
  case Nil
  then show ?case by simp
next
  case (Cons c cs)
  from Cons.prems obtain item w1 rest where
    pc: "process_country env j c w = Inr (item, w1)" and
    en: "enrich env (Suc j) cs w1 = Inr (rest, w')" and
    items: "items = item # rest"
    by (auto simp: and_then_def split: sum.splits prod.splits)
  note IH = Cons.IH [OF en]
  show ?case
  proof (cases "j = n")
    case True
    have "process_country env' j c w = Inr (item\<lparr>weather := None\<rparr>, w1)"
      using process_country_own_position [OF pc [unfolded True] assms(2,4)] True by simp
    then show ?thesis using IH True items by (simp add: and_then_simps)
  next
    case False
    then have "\<forall>q. weather_api env' j q = weather_api env j q"
      using assms(3) by simp
    from process_country_other_position [OF assms(2) this]
    have "process_country env' j c w = Inr (item, w1)"
      using pc by simp
    note pc' = this
    show ?thesis
    proof (cases "j < n")
      case True
      then obtain k where k: "n - j = Suc k" "n - Suc j = k" "Suc j \<le> n" "j \<le> n"
        by (cases "n - j") auto
      show ?thesis
        using IH by (simp add: pc' and_then_simps items k)
    next
      case False
      with \<open>j \<noteq> n\<close> have "\<not> j \<le> n" "\<not> Suc j \<le> n" by auto
      then show ?thesis
        using IH by (simp add: pc' and_then_simps items)
    qed
  qed
qed

lemma enrich_failure_isolated:
  assumes "enrich env 0 cs w = Inr (items, w')"
    and "api_key env' = api_key env"
    and "\<forall>m q. m \<noteq> n \<longrightarrow> weather_api env' m q = weather_api env m q"
    and "\<forall>q. weather_call_failed (weather_api env' n q)"
  shows "enrich env' 0 cs w = Inr (items[n := (items ! n)\<lparr>weather := None\<rparr>], w')"
  using enrich_failure_isolated_gen [OF assms] by simp

lemma process_country_log:
  assumes "derive_capital c = Inr cap" and "process_country env j c w = Inr (item, w')"
  shows "weather_calls w' =
         weather_calls w @ (if cap \<noteq> JStr ''N/A'' \<and> key_configured env then [cap] else [])"
  using assms unfolding process_country_def
  by (auto simp: and_then_def split: sum.splits if_splits)

text \<open>
  C4: for a country whose fields are derived as \<open>name\<close>, \<open>cap\<close>, \<open>pop\<close> and \<open>ll\<close>,
  a weather query is sent exactly when \<open>cap\<close> is not "N/A" and the key is
  configured; without a query the item has no weather and nothing is sent; when
  the query fails (transport error or a status other than 200) the item keeps
  its four fields and has no weather. In the loop, making the call at position
  \<open>n\<close> fail changes nothing but the weather of the item at position \<open>n\<close>, which
  becomes absent: the loop completes as before, with the same other items and
  the same queries.
\<close>

theorem weather_failure_contained:
  assumes "derive_name c = Inr name" and "derive_capital c = Inr cap"
    and "derive_population c = Inr pop" and "derive_latlng c = Inr ll"
  shows
    "(\<forall>item w'. process_country env j c w = Inr (item, w') \<longrightarrow>
        weather_calls w' =
          weather_calls w @ (if cap \<noteq> JStr ''N/A'' \<and> key_configured env then [cap] else []))
     \<and> (cap = JStr ''N/A'' \<or> \<not> key_configured env \<longrightarrow>
          process_country env j c w =
            Inr (\<lparr>country = name, capital = cap, population = pop, latlng = ll,
                   weather = None\<rparr>, w))
     \<and> (cap \<noteq> JStr ''N/A'' \<and> key_configured env
          \<and> weather_call_failed (weather_api env j cap) \<longrightarrow>
          process_country env j c w =
            Inr (\<lparr>country = name, capital = cap, population = pop, latlng = ll,
                   weather = None\<rparr>,
                 w\<lparr>weather_calls := weather_calls w @ [cap]\<rparr>))
     \<and> (\<forall>env' n cs items w'.
          enrich env 0 cs w = Inr (items, w')
          \<and> api_key env' = api_key env
          \<and> (\<forall>m q. m \<noteq> n \<longrightarrow> weather_api env' m q = weather_api env m q)
          \<and> (\<forall>q. weather_call_failed (weather_api env' n q)) \<longrightarrow>
          enrich env' 0 cs w = Inr (items[n := (items ! n)\<lparr>weather := None\<rparr>], w'))"
proof (intro conjI allI impI)
  fix item w'
  assume "process_country env j c w = Inr (item, w')"
  with assms(2) show "weather_calls w' =
      weather_calls w @ (if cap \<noteq> JStr ''N/A'' \<and> key_configured env then [cap] else [])"
    by (rule process_country_log)
next
  assume "cap = JStr ''N/A'' \<or> \<not> key_configured env"
  with assms show "process_country env j c w =
      Inr (\<lparr>country = name, capital = cap, population = pop, latlng = ll, weather = None\<rparr>, w)"
    by (rule process_country_no_attempt)
next
  assume "cap \<noteq> JStr ''N/A'' \<and> key_configured env \<and> weather_call_failed (weather_api env j cap)"
  then show "process_country env j c w =
      Inr (\<lparr>country = name, capital = cap, population = pop, latlng = ll, weather = None\<rparr>,
           w\<lparr>weather_calls := weather_calls w @ [cap]\<rparr>)"
    using assms by (simp add: process_country_failed)
next
  fix env' :: env and n cs items w'
  assume "enrich env 0 cs w = Inr (items, w') \<and> api_key env' = api_key env
          \<and> (\<forall>m q. m \<noteq> n \<longrightarrow> weather_api env' m q = weather_api env m q)
          \<and> (\<forall>q. weather_call_failed (weather_api env' n q))"
  then show "enrich env' 0 cs w = Inr (items[n := (items ! n)\<lparr>weather := None\<rparr>], w')"
    using enrich_failure_isolated [of env cs w items w' env' n] by blast
qed

lemma france_fields:
  "derive_name france = Inr (JStr ''France'')"
  "derive_capital france = Inr (JStr ''Paris'')"
  "derive_population france = Inr (JNum 67)"
  "derive_latlng france = Inr (JArr [JNum 46, JNum 2])"
  by (simp_all add: france_def derive_name_def derive_capital_def derive_population_def
      derive_latlng_def and_then_simps)

lemma two_enriched:
  "enrich good_env 0 [france, country_of ''Spain'' ''Madrid''] empty_world =
     Inr ([\<lparr>country = JStr ''France'', capital = JStr ''Paris'', population = JNum 67,
             latlng = JArr [JNum 46, JNum 2],
             weather = Some \<lparr>temp = JNum 21, description = JStr ''clear sky''\<rparr>\<rparr>,
           \<lparr>country = JStr ''Spain'', capital = JStr ''Madrid'', population = JStr ''N/A'',
             latlng = JNull,
             weather = Some \<lparr>temp = JNum 21, description = JStr ''clear sky''\<rparr>\<rparr>],
          \<lparr>history = [], weather_calls = [JStr ''Paris'', JStr ''Madrid'']\<rparr>)"
  by code_simp

theorem weather_failure_contained_witness:
  "derive_name france = Inr (JStr ''France'')
   \<and> derive_capital france = Inr (JStr ''Paris'')
   \<and> derive_population france = Inr (JNum 67)
   \<and> derive_latlng france = Inr (JArr [JNum 46, JNum 2])
   \<and> JStr ''Paris'' \<noteq> JStr ''N/A''
   \<and> key_configured (good_env\<lparr>weather_api := second_call_fails\<rparr>)
   \<and> weather_call_failed (weather_api (good_env\<lparr>weather_api := second_call_fails\<rparr>) 1 (JStr ''Paris''))
   \<and> process_country (good_env\<lparr>weather_api := second_call_fails\<rparr>) 1 france empty_world =
       Inr (\<lparr>country = JStr ''France'', capital = JStr ''Paris'', population = JNum 67,
              latlng = JArr [JNum 46, JNum 2], weather = None\<rparr>,
            \<lparr>history = [], weather_calls = [JStr ''Paris'']\<rparr>)
   \<and> enrich (good_env\<lparr>weather_api := second_call_fails\<rparr>) 0
         [france, country_of ''Spain'' ''Madrid''] empty_world =
       Inr ([\<lparr>country = JStr ''France'', capital = JStr ''Paris'', population = JNum 67,
               latlng = JArr [JNum 46, JNum 2],
               weather = Some \<lparr>temp = JNum 21, description = JStr ''clear sky''\<rparr>\<rparr>,
             \<lparr>country = JStr ''Spain'', capital = JStr ''Madrid'', population = JStr ''N/A'',
               latlng = JNull, weather = None\<rparr>],
            \<lparr>history = [], weather_calls = [JStr ''Paris'', JStr ''Madrid'']\<rparr>)"
proof -
  let ?env' = "good_env\<lparr>weather_api := second_call_fails\<rparr>"
  have key: "key_configured ?env'"
    by (simp add: key_configured_def good_env_def)
  have failed: "weather_call_failed (weather_api ?env' 1 q)" for q
    by (simp add: second_call_fails_def)
  have same_key: "api_key ?env' = api_key good_env"
    by simp
  have others: "\<forall>m q. m \<noteq> 1 \<longrightarrow> weather_api ?env' m q = weather_api good_env m q"
    by (simp add: second_call_fails_def good_env_def)
  have ne: "JStr ''Paris'' \<noteq> JStr ''N/A''"
    by simp
  note at_env' = weather_failure_contained [OF france_fields, of ?env' 1 empty_world]
  note at_good = weather_failure_contained [OF france_fields, of good_env 0 empty_world]
  from at_env' ne key failed
  have one: "process_country ?env' 1 france empty_world =
       Inr (\<lparr>country = JStr ''France'', capital = JStr ''Paris'', population = JNum 67,
              latlng = JArr [JNum 46, JNum 2], weather = None\<rparr>,
            empty_world\<lparr>weather_calls := weather_calls empty_world @ [JStr ''Paris'']\<rparr>)"
    by blast
  from at_good two_enriched same_key others failed
  have "enrich ?env' 0 [france, country_of ''Spain'' ''Madrid''] empty_world =
        Inr ([\<lparr>country = JStr ''France'', capital = JStr ''Paris'', population = JNum 67,
             latlng = JArr [JNum 46, JNum 2],
             weather = Some \<lparr>temp = JNum 21, description = JStr ''clear sky''\<rparr>\<rparr>,
           \<lparr>country = JStr ''Spain'', capital = JStr ''Madrid'', population = JStr ''N/A'',
             latlng = JNull,
             weather = Some \<lparr>temp = JNum 21, description = JStr ''clear sky''\<rparr>\<rparr>]
            [1 := ([\<lparr>country = JStr ''France'', capital = JStr ''Paris'', population = JNum 67,
             latlng = JArr [JNum 46, JNum 2],
             weather = Some \<lparr>temp = JNum 21, description = JStr ''clear sky''\<rparr>\<rparr>,
           \<lparr>country = JStr ''Spain'', capital = JStr ''Madrid'', population = JStr ''N/A'',
             latlng = JNull,
             weather = Some \<lparr>temp = JNum 21, description = JStr ''clear sky''\<rparr>\<rparr>] ! 1)
               \<lparr>weather := None\<rparr>],
          \<lparr>history = [], weather_calls = [JStr ''Paris'', JStr ''Madrid'']\<rparr>)"
    by blast
  then have two: "enrich ?env' 0 [france, country_of ''Spain'' ''Madrid''] empty_world =
       Inr ([\<lparr>country = JStr ''France'', capital = JStr ''Paris'', population = JNum 67,
               latlng = JArr [JNum 46, JNum 2],
               weather = Some \<lparr>temp = JNum 21, description = JStr ''clear sky''\<rparr>\<rparr>,
             \<lparr>country = JStr ''Spain'', capital = JStr ''Madrid'', population = JStr ''N/A'',
               latlng = JNull, weather = None\<rparr>],
            \<lparr>history = [], weather_calls = [JStr ''Paris'', JStr ''Madrid'']\<rparr>)"
    by simp
  show ?thesis
    using france_fields ne key failed [of "JStr ''Paris''"] one two
    by (simp add: empty_world_def)
qed

section \<open>When the history is written\<close>

lemma home_results_page:
  assumes "home env req w = Inr (Render ''search_results.html'' ctx, w')"
  shows "\<exists>cn status body cs sample items w1.
           http_method req = ''POST'' \<and> cleaned_continent env req = Some cn
           \<and> countries_api env (lower cn) = Response status (Some body)
           \<and> \<not> raise_for_status status \<and> truthy body \<and> as_sequence body = Inr cs
           \<and> random_sample cs (min 5 (length cs)) (rng env) = Inr sample
           \<and> enrich env 0 sample w = Inr (items, w1)
           \<and> ctx = [(''form'', Form), (''continent'', Text cn), (''results'', Results items)]
           \<and> w' = (if store_up env
                    then w1\<lparr>history := history w1 @
                           [\<lparr>continent = cn, searched_at = utcnow env, results = items\<rparr>]\<rparr>
                    else w1)"
  using assms unfolding home_def search_def
  by (auto simp: get_countries_def form_page_def decode_def try_insert and_then_def
      split: if_splits option.splits sum.splits http_result.splits prod.splits)

lemma home_other_pages:
  assumes "home env req w = Inr (Render t ctx, w')" and "t \<noteq> ''search_results.html''"
  shows "w' = w"
  using assms unfolding home_def search_def
  by (auto simp: get_countries_def form_page_def decode_def try_insert and_then_def
      split: if_splits option.splits sum.splits http_result.splits prod.splits)

lemma home_no_submission:
  assumes "http_method req \<noteq> ''POST'' \<or> cleaned_continent env req = None"
  shows "home env req w = Inr (Render ''continent_form.html'' [(''form'', Form)], w)"
  using assms by (auto simp: home_def form_page_def)

lemma process_country_string: "process_country env j (JStr s) w = Inl AttributeError"
  by (simp add: process_country_def derive_name_def and_then_simps)

lemma enrich_strings:
  assumes "sample \<noteq> []" and "\<forall>c\<in>set sample. \<exists>s. c = JStr s"
  shows "enrich env j sample w = Inl AttributeError"
proof (cases sample)
  case Nil
  with assms(1) show ?thesis by simp
next
  case (Cons c rest)
  with assms(2) obtain s where "c = JStr s" by auto
  then show ?thesis using Cons by (simp add: process_country_string and_then_simps)
qed

lemma sample_of_string:
  assumes "s \<noteq> []"
    and "random_sample (map (\<lambda>ch. JStr [ch]) s) (min 5 (length s)) r = Inr sample"
  shows "enrich env j sample w = Inl AttributeError"
proof -
  let ?cs = "map (\<lambda>ch. JStr [ch]) s"
  let ?k = "min 5 (length s)"
  have sample: "sample = sample_pool ?cs ?k r 0"
    using assms(2) by (simp add: random_sample_def split: if_splits)
  have "length sample = ?k"
    by (simp add: sample sample_pool_length)
  with assms(1) have ne: "sample \<noteq> []"
    by (cases sample) (simp_all add: min_def split: if_splits)
  have "set sample \<subseteq> set ?cs"
    unfolding sample by (rule sample_pool_subset) simp
  then have "\<forall>c\<in>set sample. \<exists>s. c = JStr s" by auto
  with ne show ?thesis by (rule enrich_strings)
qed

text \<open>
  C5, as the handler implements it. A request that is not a POST, or whose form
  is not valid, gets the bare form page and changes nothing. Whenever the
  handler changes the history, the request was a valid submission and the
  lookup returned a non-empty list of countries. Whenever the handler renders
  the results page with the items \<open>items\<close>, the history has grown by exactly one
  record, holding the continent, the time of the request and \<open>items\<close> in their
  order, if the store accepted the insert, and is unchanged if it did not.
\<close>

theorem history_written_on_success:
  "(http_method req \<noteq> ''POST'' \<or> cleaned_continent env req = None \<longrightarrow>
      home env req w = Inr (Render ''continent_form.html'' [(''form'', Form)], w))
   \<and> (\<forall>resp w'. home env req w = Inr (resp, w') \<and> history w' \<noteq> history w \<longrightarrow>
          http_method req = ''POST'' \<and>
          (\<exists>cn status cs. cleaned_continent env req = Some cn
             \<and> countries_api env (lower cn) = Response status (Some (JArr cs))
             \<and> \<not> raise_for_status status \<and> cs \<noteq> []))
   \<and> (\<forall>cn items w'.
          home env req w =
            Inr (Render ''search_results.html''
                   [(''form'', Form), (''continent'', Text cn), (''results'', Results items)], w')
          \<longrightarrow> history w' =
                (if store_up env
                 then history w @ [\<lparr>continent = cn, searched_at = utcnow env, results = items\<rparr>]
                 else history w))"
proof (intro conjI allI impI)
  assume "http_method req \<noteq> ''POST'' \<or> cleaned_continent env req = None"
  then show "home env req w = Inr (Render ''continent_form.html'' [(''form'', Form)], w)"
    by (rule home_no_submission)
next
  fix resp w'
  assume a: "home env req w = Inr (resp, w') \<and> history w' \<noteq> history w"
  obtain t ctx where resp: "resp = Render t ctx" by (cases resp)
  have t: "t = ''search_results.html''"
  proof (rule ccontr)
    assume "t \<noteq> ''search_results.html''"
    with a resp have "w' = w" using home_other_pages by blast
    with a show False by simp
  qed
  from home_results_page [of env req w ctx w'] a resp t
  obtain cn status body cs sample items w1 where
    post: "http_method req = ''POST''" and cn: "cleaned_continent env req = Some cn"
    and api: "countries_api env (lower cn) = Response status (Some body)"
    and ok: "\<not> raise_for_status status" and tr: "truthy body"
    and seq: "as_sequence body = Inr cs"
    and rs: "random_sample cs (min 5 (length cs)) (rng env) = Inr sample"
    and en: "enrich env 0 sample w = Inr (items, w1)"
    by auto
  have "body = JArr cs \<and> cs \<noteq> []"
  proof (cases body)
    case (JArr xs)
    with seq tr show ?thesis by simp
  next
    case (JStr s)
    with seq tr have "s \<noteq> []" and "cs = map (\<lambda>ch. JStr [ch]) s" by auto
    with rs have "enrich env 0 sample w = Inl AttributeError"
      using sample_of_string [of s "rng env" sample env 0 w] by simp
    with en show ?thesis by simp
  qed (use seq in simp_all)
  with post cn api ok
  show "http_method req = ''POST''"
    and "\<exists>cn status cs. cleaned_continent env req = Some cn
             \<and> countries_api env (lower cn) = Response status (Some (JArr cs))
             \<and> \<not> raise_for_status status \<and> cs \<noteq> []"
    by auto
next
  fix cn items w'
  assume "home env req w =
            Inr (Render ''search_results.html''
                   [(''form'', Form), (''continent'', Text cn), (''results'', Results items)], w')"
  from home_results_page [OF this]
  obtain sample w1 where en: "enrich env 0 sample w = Inr (items, w1)"
    and w': "w' = (if store_up env
                    then w1\<lparr>history := history w1 @
                           [\<lparr>continent = cn, searched_at = utcnow env, results = items\<rparr>]\<rparr>
                    else w1)"
    by auto
  from enrich_history [OF en] w'
  show "history w' =
                (if store_up env
                 then history w @ [\<lparr>continent = cn, searched_at = utcnow env, results = items\<rparr>]
                 else history w)"
    by simp
qed

text \<open>
  C5 as stated promises a record for every successful submission. The insert
  is best effort: with a store that rejects it, a valid submission with one
  sampled country gets its results page and the history stays empty.
\<close>

theorem insert_rejected_writes_nothing:
  "http_method post_europe = ''POST''
   \<and> \<not> store_up (good_env\<lparr>countries_api := just_france, store_up := False\<rparr>)
   \<and> cleaned_continent (good_env\<lparr>countries_api := just_france, store_up := False\<rparr>) post_europe
       = Some ''Europe''
   \<and> countries_api (good_env\<lparr>countries_api := just_france, store_up := False\<rparr>) (lower ''Europe'')
       = Response 200 (Some (JArr [france]))
   \<and> home (good_env\<lparr>countries_api := just_france, store_up := False\<rparr>) post_europe empty_world =
       Inr (Render ''search_results.html''
              [(''form'', Form), (''continent'', Text ''Europe''),
               (''results'', Results [paris_item])],
            \<lparr>history = [], weather_calls = [JStr ''Paris'']\<rparr>)"
  by code_simp

lemma home_france:
  "home (good_env\<lparr>countries_api := just_france\<rparr>) post_europe empty_world =
       Inr (Render ''search_results.html''
              [(''form'', Form), (''continent'', Text ''Europe''),
               (''results'', Results [paris_item])],
            \<lparr>history = [\<lparr>continent = ''Europe'', searched_at = 7, results = [paris_item]\<rparr>],
              weather_calls = [JStr ''Paris'']\<rparr>)"
  by code_simp

theorem history_written_on_success_witness:
  "home (good_env\<lparr>countries_api := just_france\<rparr>) post_europe empty_world =
       Inr (Render ''search_results.html''
              [(''form'', Form), (''continent'', Text ''Europe''),
               (''results'', Results [paris_item])],
            \<lparr>history = [\<lparr>continent = ''Europe'', searched_at = 7, results = [paris_item]\<rparr>],
              weather_calls = [JStr ''Paris'']\<rparr>)
   \<and> store_up (good_env\<lparr>countries_api := just_france\<rparr>)
   \<and> history \<lparr>history = [\<lparr>continent = ''Europe'', searched_at = 7, results = [paris_item]\<rparr>],
              weather_calls = [JStr ''Paris'']\<rparr>
       = history empty_world @
           [\<lparr>continent = ''Europe'',
             searched_at = utcnow (good_env\<lparr>countries_api := just_france\<rparr>),
             results = [paris_item]\<rparr>]"
proof -
  have up: "store_up (good_env\<lparr>countries_api := just_france\<rparr>)"
    by (simp add: good_env_def)
  from history_written_on_success
    [of post_europe "good_env\<lparr>countries_api := just_france\<rparr>" empty_world]
    home_france up
  have "history \<lparr>history = [\<lparr>continent = ''Europe'', searched_at = 7, results = [paris_item]\<rparr>],
              weather_calls = [JStr ''Paris'']\<rparr>
       = history empty_world @
           [\<lparr>continent = ''Europe'',
             searched_at = utcnow (good_env\<lparr>countries_api := just_france\<rparr>),
             results = [paris_item]\<rparr>]"
    by presburger
  with home_france up show ?thesis by blast
qed

section \<open>Field derivation\<close>

lemma is_pair_truthy: "is_pair v \<Longrightarrow> truthy v"
  by (auto simp: is_pair_def split: json.splits list.splits)

lemma country_record_fields:
  assumes "country_record c"
  shows "derive_name c = Inr (spec_name c)"
    and "derive_capital c = Inr (spec_capital c)"
    and "derive_population c = Inr (spec_population c)"
    and "derive_latlng c = Inr (spec_coordinates c)"
proof -
  from assms obtain kvs where c: "c = JObj kvs"
    by (cases c) (simp_all add: country_record_def is_object_def)
  show "derive_name c = Inr (spec_name c)"
    using assms unfolding c
    by (auto simp: country_record_def derive_name_def spec_name_def is_object_def
        and_then_simps split: option.splits json.splits)
  show "derive_capital c = Inr (spec_capital c)"
    using assms unfolding c
    by (auto simp: country_record_def derive_capital_def spec_capital_def is_array_def
        and_then_simps split: option.splits json.splits list.splits)
  show "derive_population c = Inr (spec_population c)"
    unfolding c
    by (simp add: derive_population_def spec_population_def split: option.splits)
  show "derive_latlng c = Inr (spec_coordinates c)"
    using assms unfolding c
    by (auto simp: country_record_def derive_latlng_def spec_coordinates_def is_object_def
        and_then_simps is_pair_truthy split: option.splits json.splits)
qed

lemma process_country_fields:
  assumes "process_country env j c w = Inr (item, w')"
  shows "derive_name c = Inr (country item)" and "derive_capital c = Inr (capital item)"
    and "derive_population c = Inr (population item)" and "derive_latlng c = Inr (latlng item)"
  using assms unfolding process_country_def
  by (auto simp: and_then_def split: sum.splits if_splits)

text \<open>
  C8: on a country record, the code derives the four fields as the
  specification words them: the capital is the first element of the capital
  list when the list is present and not empty and "N/A" otherwise; the
  coordinates are the capital's pair when present, else the record's pair when
  present, else null; the name is the common name, or "Unknown" when absent; the
  population is the given value, or "N/A" when absent. Every item the loop body
  returns for the record carries these four values.
\<close>

theorem fields_as_specified:
  assumes "country_record c"
  shows "derive_name c = Inr (spec_name c)
     \<and> derive_capital c = Inr (spec_capital c)
     \<and> derive_population c = Inr (spec_population c)
     \<and> derive_latlng c = Inr (spec_coordinates c)
     \<and> (\<forall>env j w item w'. process_country env j c w = Inr (item, w') \<longrightarrow>
           country item = spec_name c \<and> capital item = spec_capital c
           \<and> population item = spec_population c \<and> latlng item = spec_coordinates c)"
  using country_record_fields [OF assms] process_country_fields [where c = c]
  by (metis sum.inject(2))

lemma fields_examples:
  "country_record france" "country_record antarctica"
  "spec_name france = JStr ''France''" "spec_capital france = JStr ''Paris''"
  "spec_population france = JNum 67" "spec_coordinates france = JArr [JNum 46, JNum 2]"
  "spec_name antarctica = JStr ''Antarctica''" "spec_capital antarctica = JStr ''N/A''"
  "spec_population antarctica = JStr ''N/A''"
  "spec_coordinates antarctica = JArr [JNum (-90), JNum 0]"
  by code_simp+

theorem fields_as_specified_witness:
  "country_record france
   \<and> derive_name france = Inr (JStr ''France'')
   \<and> derive_capital france = Inr (JStr ''Paris'')
   \<and> derive_population france = Inr (JNum 67)
   \<and> derive_latlng france = Inr (JArr [JNum 46, JNum 2])
   \<and> country_record antarctica
   \<and> derive_name antarctica = Inr (JStr ''Antarctica'')
   \<and> derive_capital antarctica = Inr (JStr ''N/A'')
   \<and> derive_population antarctica = Inr (JStr ''N/A'')
   \<and> derive_latlng antarctica = Inr (JArr [JNum (-90), JNum 0])"
  using fields_as_specified [OF fields_examples(1)] fields_as_specified [OF fields_examples(2)]
    fields_examples
  by simp

section \<open>A weather object without values\<close>

lemma weather_request_object:
  assumes "weather_api env j cap = Response 200 (Some (JObj kvs))"
    and "map_of kvs ''main'' = None \<or> (\<exists>m. map_of kvs ''main'' = Some (JObj m))"
    and "map_of kvs ''weather'' = None
         \<or> (\<exists>e rest. map_of kvs ''weather'' = Some (JArr (JObj e # rest)))"
  shows "fetch_weather env j cap =
     Inr (Some \<lparr>temp = (case map_of kvs ''main'' of
                           Some (JObj m) \<Rightarrow> (case map_of m ''temp'' of None \<Rightarrow> JNull | Some t \<Rightarrow> t)
                         | _ \<Rightarrow> JNull),
                 description = (case map_of kvs ''weather'' of
                           Some (JArr (JObj e # rest)) \<Rightarrow>
                             (case map_of e ''description'' of None \<Rightarrow> JNull | Some d \<Rightarrow> d)
                         | _ \<Rightarrow> JNull)\<rparr>)"
  using assms
  by (auto simp: fetch_weather_def weather_request_def decode_def and_then_simps
      try_except_simps split: option.splits)

text \<open>
  Where the defaults of the two \<^verbatim>\<open>get\<close> calls apply: when the weather call
  returns status 200 with a JSON object whose \<^verbatim>\<open>main\<close>, if present, is an object
  and whose \<^verbatim>\<open>weather\<close>, if present, is a list that starts with an object, the
  item has a weather object; its temperature is null when \<^verbatim>\<open>main\<close> or
  \<^verbatim>\<open>main.temp\<close> is missing and its description is null when \<^verbatim>\<open>weather\<close> or the
  description of its first entry is missing.
\<close>

lemma weather_present_with_nulls:
  assumes "derive_name c = Inr name" and "derive_capital c = Inr cap"
    and "derive_population c = Inr pop" and "derive_latlng c = Inr ll"
    and "cap \<noteq> JStr ''N/A''" and "key_configured env"
    and "weather_api env j cap = Response 200 (Some (JObj kvs))"
    and "map_of kvs ''main'' = None \<or> (\<exists>m. map_of kvs ''main'' = Some (JObj m))"
    and "map_of kvs ''weather'' = None
         \<or> (\<exists>e rest. map_of kvs ''weather'' = Some (JArr (JObj e # rest)))"
  shows "\<exists>t d.
     process_country env j c w =
       Inr (\<lparr>country = name, capital = cap, population = pop, latlng = ll,
              weather = Some \<lparr>temp = t, description = d\<rparr>\<rparr>,
            w\<lparr>weather_calls := weather_calls w @ [cap]\<rparr>)
     \<and> (map_of kvs ''main'' = None
          \<or> (\<exists>m. map_of kvs ''main'' = Some (JObj m) \<and> map_of m ''temp'' = None)
          \<longrightarrow> t = JNull)
     \<and> (map_of kvs ''weather'' = None
          \<or> (\<exists>e rest. map_of kvs ''weather'' = Some (JArr (JObj e # rest))
                \<and> map_of e ''description'' = None)
          \<longrightarrow> d = JNull)"
proof -
  let ?t = "case map_of kvs ''main'' of
              Some (JObj m) \<Rightarrow> (case map_of m ''temp'' of None \<Rightarrow> JNull | Some t \<Rightarrow> t)
            | _ \<Rightarrow> JNull"
  let ?d = "case map_of kvs ''weather'' of
              Some (JArr (JObj e # rest)) \<Rightarrow>
                (case map_of e ''description'' of None \<Rightarrow> JNull | Some d \<Rightarrow> d)
            | _ \<Rightarrow> JNull"
  have fw: "fetch_weather env j cap = Inr (Some \<lparr>temp = ?t, description = ?d\<rparr>)"
    using assms(7-9) by (rule weather_request_object)
  have pc: "process_country env j c w =
       Inr (\<lparr>country = name, capital = cap, population = pop, latlng = ll,
              weather = Some \<lparr>temp = ?t, description = ?d\<rparr>\<rparr>,
            w\<lparr>weather_calls := weather_calls w @ [cap]\<rparr>)"
    using assms(1-6) by (simp add: process_country_def and_then_simps fw)
  have t: "map_of kvs ''main'' = None
          \<or> (\<exists>m. map_of kvs ''main'' = Some (JObj m) \<and> map_of m ''temp'' = None)
          \<longrightarrow> ?t = JNull"
    by auto
  have d: "map_of kvs ''weather'' = None
          \<or> (\<exists>e rest. map_of kvs ''weather'' = Some (JArr (JObj e # rest))
                \<and> map_of e ''description'' = None)
          \<longrightarrow> ?d = JNull"
    by auto
  from pc t d show ?thesis by blast
qed

text \<open>
  C10 says that a weather response with status 200 whose body lacks
  \<^verbatim>\<open>main.temp\<close> or the description of the first entry still gives the item a
  weather object, with null values. The body whose \<^verbatim>\<open>weather\<close> is the empty list
  lacks \<^verbatim>\<open>main.temp\<close>; the default \<^verbatim>\<open>[{}]\<close> does not apply to it, the index raises
  \<^verbatim>\<open>IndexError\<close> and the loop body raises: there is no item and no weather
  object.
\<close>

theorem empty_weather_list_gives_no_item:
  "key_configured base_env
   \<and> weather_api base_env 0 (JStr ''Paris'') = Response 200 (Some (JObj [(''weather'', JArr [])]))
   \<and> map_of [(''weather'', JArr [])] ''main'' = None
   \<and> process_country base_env 0 france empty_world = Inl IndexError"
  by code_simp

lemma weather_present_with_nulls_example:
  "derive_name france = Inr (JStr ''France'')
   \<and> derive_capital france = Inr (JStr ''Paris'')
   \<and> derive_population france = Inr (JNum 67)
   \<and> derive_latlng france = Inr (JArr [JNum 46, JNum 2])
   \<and> JStr ''Paris'' \<noteq> JStr ''N/A''
   \<and> key_configured (good_env\<lparr>weather_api := empty_body\<rparr>)
   \<and> weather_api (good_env\<lparr>weather_api := empty_body\<rparr>) 0 (JStr ''Paris'')
       = Response 200 (Some (JObj []))
   \<and> process_country (good_env\<lparr>weather_api := empty_body\<rparr>) 0 france empty_world =
       Inr (\<lparr>country = JStr ''France'', capital = JStr ''Paris'', population = JNum 67,
              latlng = JArr [JNum 46, JNum 2],
              weather = Some \<lparr>temp = JNull, description = JNull\<rparr>\<rparr>,
            \<lparr>history = [], weather_calls = [JStr ''Paris'']\<rparr>)"
proof -
  let ?env = "good_env\<lparr>weather_api := empty_body\<rparr>"
  have ne: "JStr ''Paris'' \<noteq> JStr ''N/A''"
    by simp
  have key: "key_configured ?env"
    by (simp add: key_configured_def good_env_def)
  have api: "weather_api ?env 0 (JStr ''Paris'') = Response 200 (Some (JObj []))"
    by (simp add: empty_body_def)
  have no_main: "map_of ([] :: (string \<times> json) list) ''main'' = None
                 \<or> (\<exists>m. map_of ([] :: (string \<times> json) list) ''main'' = Some (JObj m))"
    by simp
  have no_weather: "map_of ([] :: (string \<times> json) list) ''weather'' = None
                 \<or> (\<exists>e rest. map_of ([] :: (string \<times> json) list) ''weather''
                                   = Some (JArr (JObj e # rest)))"
    by simp
  from weather_present_with_nulls [OF france_fields ne key api no_main no_weather, of empty_world]
  obtain t d where
    pc: "process_country ?env 0 france empty_world =
       Inr (\<lparr>country = JStr ''France'', capital = JStr ''Paris'', population = JNum 67,
              latlng = JArr [JNum 46, JNum 2],
              weather = Some \<lparr>temp = t, description = d\<rparr>\<rparr>,
            empty_world\<lparr>weather_calls := weather_calls empty_world @ [JStr ''Paris'']\<rparr>)"
    and "t = JNull" and "d = JNull"
    by auto
  then show ?thesis
    using france_fields ne key api by (simp add: empty_world_def)
qed

end
